theory Spec2Isabelle
  imports Main "HOL-Library.Word"
begin

unbundle bit_operations_syntax

section \<open>Machine types and the constants of the missing headers\<close>

type_synonym u8 = "8 word"
type_synonym u16 = "16 word"
type_synonym u64 = "64 word"
type_synonym s32 = "32 word"

text \<open>
  \<^verbatim>\<open>ftsGesture.c\<close> takes every constant from headers (\<^verbatim>\<open>ftsSoftware.h\<close>,
  \<^verbatim>\<open>ftsError.h\<close>, \<^verbatim>\<open>ftsGesture.h\<close>, \<^verbatim>\<open>ftsCore.h\<close>, \<^verbatim>\<open>ftsIO.h\<close>) that are not part
  of the excerpt, so the constants are parameters of the model. The two array dimensions
  are natural numbers; every other macro is a C \<^verbatim>\<open>int\<close> constant expression, a 32-bit
  word read as two's complement where the code compares with \<^verbatim>\<open><\<close>.
\<close>

record config =
  GESTURE_MASK_SIZE :: nat
  GESTURE_MAX_COORDS_PAIRS_REPORT :: nat
  FEAT_ENABLE :: s32
  FEAT_DISABLE :: s32
  OK :: s32
  ERROR_OP_NOT_ALLOW :: s32
  ERROR_DISABLE_INTER :: s32
  ERROR_ENABLE_INTER :: s32
  EVT_ID_USER_REPORT :: s32
  EVT_TYPE_USER_GESTURE :: s32
  FEAT_SEL_GESTURE :: s32
  SCAN_MODE_LOW_POWER :: s32
  FTS_CMD_FRAMEBUFFER_R :: s32
  BITS_16 :: s32
  DUMMY_FRAMEBUFFER :: s32

text \<open>
  One concrete configuration, used to run the model on explicit inputs: a four-byte
  mask, room for one hundred coordinate pairs, \<^verbatim>\<open>OK\<close> equal to zero and negative error
  codes.
\<close>

definition sample_config :: config where
  "sample_config =
     \<lparr> GESTURE_MASK_SIZE = 4,
       GESTURE_MAX_COORDS_PAIRS_REPORT = 100,
       FEAT_ENABLE = 1,
       FEAT_DISABLE = 0,
       OK = 0,
       ERROR_OP_NOT_ALLOW = 0x80000006,
       ERROR_DISABLE_INTER = 0x80000200,
       ERROR_ENABLE_INTER = 0x80000300,
       EVT_ID_USER_REPORT = 0x53,
       EVT_TYPE_USER_GESTURE = 0x02,
       FEAT_SEL_GESTURE = 0x03,
       SCAN_MODE_LOW_POWER = 0x02,
       FTS_CMD_FRAMEBUFFER_R = 0xA6,
       BITS_16 = 16,
       DUMMY_FRAMEBUFFER = 1 \<rparr>"

section \<open>External collaborators\<close>

text \<open>
  The buffer handed to \<^verbatim>\<open>setFeatures\<close> is either the static \<^verbatim>\<open>gesture_mask\<close> array or
  the local \<^verbatim>\<open>int i\<close> of \<^verbatim>\<open>disableGesture\<close>; the bytes of the object pointed to are
  recorded with it.
\<close>

datatype buffer = Buf_gesture_mask "u8 list" | Buf_local_i "u8 list"

datatype call =
    Call_fts_disableInterruptNoSync
  | Call_fts_enableInterrupt
  | Call_setFeatures s32 buffer nat
  | Call_setScanMode s32 s32
  | Call_fts_writeReadU8UX s32 s32 u64 s32 s32

text \<open>An external call is logged together with the value it returned.\<close>

datatype event = Ext call s32 | Mutex_lock | Mutex_unlock

text \<open>
  Every entry point calls each collaborator at most once, so one return value per
  collaborator describes any behaviour of the environment during one call.
  \<open>fts_writeReadU8UX_data\<close> is the content of the local array \<^verbatim>\<open>val\<close> after the read.
\<close>

record env =
  fts_disableInterruptNoSync_ret :: s32
  setFeatures_ret :: s32
  setScanMode_ret :: s32
  fts_enableInterrupt_ret :: s32
  fts_writeReadU8UX_ret :: s32
  fts_writeReadU8UX_data :: "u8 list"

section \<open>The driver's global state\<close>

record driver_state =
  gesture_mask :: "u8 list"
  gesture_coordinates_x :: "u16 list"
  gesture_coordinates_y :: "u16 list"
  gesture_coords_reported :: s32
  refreshGestureMask :: u8
  trace :: "event list"

definition init_state :: "config \<Rightarrow> driver_state" where
  "init_state cfg =
     \<lparr> gesture_mask = replicate (GESTURE_MASK_SIZE cfg) 0,
       gesture_coordinates_x = replicate (GESTURE_MAX_COORDS_PAIRS_REPORT cfg) 0,
       gesture_coordinates_y = replicate (GESTURE_MAX_COORDS_PAIRS_REPORT cfg) 0,
       gesture_coords_reported = ERROR_OP_NOT_ALLOW cfg,
       refreshGestureMask = 0,
       trace = [] \<rparr>"

definition log_event :: "event \<Rightarrow> driver_state \<Rightarrow> driver_state" where
  "log_event e st = st\<lparr>trace := trace st @ [e]\<rparr>"

section \<open>updateGestureMask\<close>

text \<open>\<^verbatim>\<open>for (i = 0; i < size; i++) gesture_mask[i] = gesture_mask[i] | mask[i];\<close>\<close>

function or_loop :: "u8 list \<Rightarrow> int \<Rightarrow> int \<Rightarrow> u8 list \<Rightarrow> u8 list" where
  "or_loop msk i sz gm =
     (if i < sz
      then or_loop msk (i + 1) sz (gm[nat i := (gm ! nat i) OR (msk ! nat i)])
      else gm)"
  by pat_completeness auto
termination
  by (relation "measure (\<lambda>(msk, i, sz, gm). nat (sz - i))") auto

declare or_loop.simps [simp del]

text \<open>
  \<^verbatim>\<open>for (i = 0; i < size; i++) { temp = gesture_mask[i] ^ mask[i];
  gesture_mask[i] = temp & gesture_mask[i]; }\<close>
\<close>

function clear_loop :: "u8 list \<Rightarrow> int \<Rightarrow> int \<Rightarrow> u8 list \<Rightarrow> u8 list" where
  "clear_loop msk i sz gm =
     (if i < sz
      then clear_loop msk (i + 1) sz
             (let temp = (gm ! nat i) XOR (msk ! nat i)
              in gm[nat i := temp AND (gm ! nat i)])
      else gm)"
  by pat_completeness auto
termination
  by (relation "measure (\<lambda>(msk, i, sz, gm). nat (sz - i))") auto

declare clear_loop.simps [simp del]

definition updateGestureMask ::
  "config \<Rightarrow> u8 list option \<Rightarrow> int \<Rightarrow> s32 \<Rightarrow> driver_state \<Rightarrow> s32 \<times> driver_state" where
  "updateGestureMask cfg msk sz en st =
     (case msk of
        Some m \<Rightarrow>
          if sz \<le> int (GESTURE_MASK_SIZE cfg) then
            if en = FEAT_ENABLE cfg then
              (let st1 = log_event Mutex_lock st;
                   st2 = st1\<lparr>gesture_mask := or_loop m 0 sz (gesture_mask st1)\<rparr>;
                   st3 = st2\<lparr>refreshGestureMask := 1\<rparr>
               in (OK cfg, log_event Mutex_unlock st3))
            else if en = FEAT_DISABLE cfg then
              (let st1 = log_event Mutex_lock st;
                   st2 = st1\<lparr>gesture_mask := clear_loop m 0 sz (gesture_mask st1)\<rparr>;
                   st3 = st2\<lparr>refreshGestureMask := 1\<rparr>
               in (OK cfg, log_event Mutex_unlock st3))
            else (ERROR_OP_NOT_ALLOW cfg, st)
          else (ERROR_OP_NOT_ALLOW cfg, st)
      | None \<Rightarrow> (ERROR_OP_NOT_ALLOW cfg, st))"

section \<open>enableGesture and disableGesture\<close>

definition enableGesture ::
  "config \<Rightarrow> env \<Rightarrow> u8 list option \<Rightarrow> int \<Rightarrow> driver_state \<Rightarrow> s32 \<times> driver_state" where
  "enableGesture cfg e msk sz st =
     (if sz \<le> int (GESTURE_MASK_SIZE cfg) then
        (let st1 = log_event Mutex_lock st;
             st2 = (case msk of
                      Some m \<Rightarrow> st1\<lparr>gesture_mask := or_loop m 0 sz (gesture_mask st1)\<rparr>
                    | None \<Rightarrow> st1);
             res = setFeatures_ret e;
             st3 = log_event
                     (Ext (Call_setFeatures (FEAT_SEL_GESTURE cfg)
                             (Buf_gesture_mask (gesture_mask st2)) (GESTURE_MASK_SIZE cfg)) res)
                     st2
         in if res <s OK cfg
            then (res, log_event Mutex_unlock st3)
            else (OK cfg, log_event Mutex_unlock st3))
      else (ERROR_OP_NOT_ALLOW cfg, st))"

text \<open>
  With a null \<^verbatim>\<open>mask\<close> the payload pointer is \<^verbatim>\<open>(u8 *)&i\<close> with \<^verbatim>\<open>i = 0\<close>: the four
  zero bytes of a 32-bit \<^verbatim>\<open>int\<close>. The stored mask is not written on that path.
\<close>

definition disableGesture ::
  "config \<Rightarrow> env \<Rightarrow> u8 list option \<Rightarrow> int \<Rightarrow> driver_state \<Rightarrow> s32 \<times> driver_state" where
  "disableGesture cfg e msk sz st =
     (if sz \<le> int (GESTURE_MASK_SIZE cfg) then
        (let st1 = log_event Mutex_lock st;
             (st2, pointer) =
                (case msk of
                   Some m \<Rightarrow>
                     (let s = st1\<lparr>gesture_mask := clear_loop m 0 sz (gesture_mask st1)\<rparr>
                      in (s, Buf_gesture_mask (gesture_mask s)))
                 | None \<Rightarrow> (st1, Buf_local_i (replicate 4 0)));
             res = setFeatures_ret e;
             st3 = log_event
                     (Ext (Call_setFeatures (FEAT_SEL_GESTURE cfg) pointer
                             (GESTURE_MASK_SIZE cfg)) res)
                     st2
         in if res <s OK cfg
            then (res, log_event Mutex_unlock st3)
            else (OK cfg, log_event Mutex_unlock st3))
      else (ERROR_OP_NOT_ALLOW cfg, st))"

section \<open>enterGestureMode\<close>

text \<open>The code from the label \<^verbatim>\<open>END\<close> on.\<close>

definition enterGestureMode_END ::
  "config \<Rightarrow> env \<Rightarrow> s32 \<Rightarrow> driver_state \<Rightarrow> s32 \<times> driver_state" where
  "enterGestureMode_END cfg e res st =
     (let ret = fts_enableInterrupt_ret e;
          st1 = log_event (Ext Call_fts_enableInterrupt ret) st
      in if ret <s OK cfg
         then (res OR (ret OR ERROR_ENABLE_INTER cfg), st1)
         else (res, st1))"

text \<open>The code from the call of \<^verbatim>\<open>setScanMode\<close> on.\<close>

definition enterGestureMode_scan ::
  "config \<Rightarrow> env \<Rightarrow> driver_state \<Rightarrow> s32 \<times> driver_state" where
  "enterGestureMode_scan cfg e st =
     (let res = setScanMode_ret e;
          st1 = log_event (Ext (Call_setScanMode (SCAN_MODE_LOW_POWER cfg) 0) res) st
      in if res <s OK cfg
         then enterGestureMode_END cfg e res st1
         else enterGestureMode_END cfg e (OK cfg) st1)"

definition enterGestureMode ::
  "config \<Rightarrow> env \<Rightarrow> s32 \<Rightarrow> driver_state \<Rightarrow> s32 \<times> driver_state" where
  "enterGestureMode cfg e reload st =
     (let res = fts_disableInterruptNoSync_ret e;
          st1 = log_event (Ext Call_fts_disableInterruptNoSync res) st
      in if res <s OK cfg
         then (res OR ERROR_DISABLE_INTER cfg, st1)
         else if reload = 1 \<or> refreshGestureMask st1 = 1 then
           (case enableGesture cfg e None 0 st1 of
              (res', st2) \<Rightarrow>
                if res' <s OK cfg
                then enterGestureMode_END cfg e res' st2
                else enterGestureMode_scan cfg e (st2\<lparr>refreshGestureMask := 0\<rparr>))
         else enterGestureMode_scan cfg e st1)"

section \<open>readGestureCoords and getGestureCoords\<close>

text \<open>
  \<^verbatim>\<open>(((u16) hi) & 0x0F) << 8 | (((u16) lo) & 0xFF)\<close>, computed in \<^verbatim>\<open>int\<close> after the
  integer promotions and stored into a \<^verbatim>\<open>u16\<close> cell.
\<close>

definition coord12 :: "u8 \<Rightarrow> u8 \<Rightarrow> u16" where
  "coord12 hi lo =
     ucast (push_bit 8 ((ucast (ucast hi :: u16) :: s32) AND 0x0F)
            OR ((ucast (ucast lo :: u16) :: s32) AND 0xFF))"

text \<open>\<^verbatim>\<open>for (i = 0; i < gesture_coords_reported; i++) { ... }\<close> with \<open>n\<close> the count.\<close>

function coords_loop ::
  "u8 list \<Rightarrow> int \<Rightarrow> int \<Rightarrow> u16 list \<times> u16 list \<Rightarrow> u16 list \<times> u16 list" where
  "coords_loop val n i (xs, ys) =
     (if i < n
      then coords_loop val n (i + 1)
             (xs[nat i := coord12 (val ! nat (i * 2 + 1)) (val ! nat (i * 2))],
              ys[nat i := coord12 (val ! nat (n * 2 + i * 2 + 1)) (val ! nat (n * 2 + i * 2))])
      else (xs, ys))"
  by pat_completeness auto
termination
  by (relation "measure (\<lambda>(val, n, i, xy). nat (n - i))") auto

declare coords_loop.simps [simp del]

definition readGestureCoords ::
  "config \<Rightarrow> env \<Rightarrow> u8 list \<Rightarrow> driver_state \<Rightarrow> s32 \<times> driver_state" where
  "readGestureCoords cfg e ev st =
     (if (ucast (ev ! 0) :: s32) = EVT_ID_USER_REPORT cfg
         \<and> (ucast (ev ! 1) :: s32) = EVT_TYPE_USER_GESTURE cfg then
        (let address = (scast (push_bit 8 (ucast (ev ! 4) :: s32) OR ucast (ev ! 3)) :: u64);
             st1 = st\<lparr>gesture_coords_reported := ucast (ev ! 5)\<rparr>;
             st2 = (if int (GESTURE_MAX_COORDS_PAIRS_REPORT cfg) < sint (gesture_coords_reported st1)
                    then st1\<lparr>gesture_coords_reported :=
                               word_of_nat (GESTURE_MAX_COORDS_PAIRS_REPORT cfg)\<rparr>
                    else st1);
             res = fts_writeReadU8UX_ret e;
             val = fts_writeReadU8UX_data e;
             st3 = log_event
                     (Ext (Call_fts_writeReadU8UX (FTS_CMD_FRAMEBUFFER_R cfg) (BITS_16 cfg)
                             address (gesture_coords_reported st2 * 2 * 2)
                             (DUMMY_FRAMEBUFFER cfg)) res)
                     st2
         in if res <s OK cfg
            then (res, st3\<lparr>gesture_coords_reported := ERROR_OP_NOT_ALLOW cfg\<rparr>)
            else
              (case coords_loop val (sint (gesture_coords_reported st3)) 0
                      (gesture_coordinates_x st3, gesture_coordinates_y st3) of
                 (xs, ys) \<Rightarrow>
                   (OK cfg, st3\<lparr>gesture_coordinates_x := xs, gesture_coordinates_y := ys\<rparr>)))
      else (ERROR_OP_NOT_ALLOW cfg, st))"

text \<open>
  \<^verbatim>\<open>getGestureCoords\<close> stores the addresses of the two arrays through its out-parameters
  and returns the count; the global state is not written.
\<close>

definition getGestureCoords :: "driver_state \<Rightarrow> u16 list \<times> u16 list \<times> s32" where
  "getGestureCoords st =
     (gesture_coordinates_x st, gesture_coordinates_y st, gesture_coords_reported st)"

section \<open>Runs of the driver and what the firmware has received\<close>

datatype operation =
    Op_updateGestureMask "u8 list option" int s32
  | Op_enableGesture "u8 list option" int
  | Op_disableGesture "u8 list option" int
  | Op_enterGestureMode s32

fun exec :: "config \<Rightarrow> env \<Rightarrow> operation \<Rightarrow> driver_state \<Rightarrow> driver_state" where
  "exec cfg e (Op_updateGestureMask msk sz en) st = snd (updateGestureMask cfg msk sz en st)"
| "exec cfg e (Op_enableGesture msk sz) st = snd (enableGesture cfg e msk sz st)"
| "exec cfg e (Op_disableGesture msk sz) st = snd (disableGesture cfg e msk sz st)"
| "exec cfg e (Op_enterGestureMode reload) st = snd (enterGestureMode cfg e reload st)"

text \<open>
  A run of the driver: the operations in the order they are called, each with what the
  collaborators return during it. The states the driver can be in are the states
  \<open>run cfg steps\<close>, reached from the initial one.
\<close>

fun run_from :: "config \<Rightarrow> (env \<times> operation) list \<Rightarrow> driver_state \<Rightarrow> driver_state" where
  "run_from cfg [] st = st"
| "run_from cfg ((e, oper) # steps) st = run_from cfg steps (exec cfg e oper st)"

definition run :: "config \<Rightarrow> (env \<times> operation) list \<Rightarrow> driver_state" where
  "run cfg steps = run_from cfg steps (init_state cfg)"

text \<open>
  The mask the firmware holds, read off the log: the payload of the last
  \<^verbatim>\<open>setFeatures\<close> call that did not fail, whichever buffer it was given, that is the
  first \<open>n\<close> bytes of the object pointed to, \<open>n\<close> being the length passed. (Of the
  local \<^verbatim>\<open>int\<close> of \<^verbatim>\<open>disableGesture\<close> only its four bytes are known.) Before any
  such call the firmware holds \<open>fw\<close>.
\<close>

fun payload_bytes :: "buffer \<Rightarrow> u8 list" where
  "payload_bytes (Buf_gesture_mask m) = m"
| "payload_bytes (Buf_local_i bs) = bs"

fun last_payload :: "config \<Rightarrow> u8 list \<Rightarrow> event list \<Rightarrow> u8 list" where
  "last_payload cfg fw [] = fw"
| "last_payload cfg fw (Ext (Call_setFeatures sel buf n) r # es) =
     last_payload cfg (if r <s OK cfg then fw else take n (payload_bytes buf)) es"
| "last_payload cfg fw (ev # es) = last_payload cfg fw es"

text \<open>The firmware starts, like the driver, with the all-zero mask.\<close>

definition firmware_mask :: "config \<Rightarrow> driver_state \<Rightarrow> u8 list" where
  "firmware_mask cfg st = last_payload cfg (replicate (GESTURE_MASK_SIZE cfg) 0) (trace st)"

text \<open>
  The invariant of the data model as the specification words it: the flag is set
  exactly when the stored mask differs from what the firmware has seen.
\<close>

definition refresh_iff_unseen :: "config \<Rightarrow> driver_state \<Rightarrow> bool" where
  "refresh_iff_unseen cfg st =
     ((refreshGestureMask st = 1) = (gesture_mask st \<noteq> firmware_mask cfg st))"

text \<open>
  The bookkeeping of the invariant that does hold, written from its wording and followed
  along a run without looking at the driver's variables. The first component, "an update
  is pending", becomes true when \<^verbatim>\<open>updateGestureMask\<close> is called with arguments it
  accepts, and false when \<^verbatim>\<open>enterGestureMode\<close> pushes the mask with success: its
  interrupt disable succeeds, \<open>reload\<close> is 1 or an update is pending, and the firmware
  write succeeds. The second component, "a push left a gap", becomes true when the
  firmware write of an \<^verbatim>\<open>enableGesture\<close> or \<^verbatim>\<open>disableGesture\<close> call given a mask
  fails, or when the all-off write of \<^verbatim>\<open>disableGesture\<close> without a mask succeeds; it
  becomes false at every successful write of the stored mask.
\<close>

fun history_step :: "config \<Rightarrow> env \<Rightarrow> operation \<Rightarrow> bool \<times> bool \<Rightarrow> bool \<times> bool" where
  "history_step cfg e (Op_updateGestureMask msk sz en) (p, g) =
     (if msk \<noteq> None \<and> sz \<le> int (GESTURE_MASK_SIZE cfg)
         \<and> (en = FEAT_ENABLE cfg \<or> en = FEAT_DISABLE cfg)
      then (True, g) else (p, g))"
| "history_step cfg e (Op_enableGesture msk sz) (p, g) =
     (if int (GESTURE_MASK_SIZE cfg) < sz then (p, g)
      else if setFeatures_ret e <s OK cfg then (p, g \<or> msk \<noteq> None)
      else (p, False))"
| "history_step cfg e (Op_disableGesture msk sz) (p, g) =
     (if int (GESTURE_MASK_SIZE cfg) < sz then (p, g)
      else if msk = None then (if setFeatures_ret e <s OK cfg then (p, g) else (p, True))
      else if setFeatures_ret e <s OK cfg then (p, True)
      else (p, False))"
| "history_step cfg e (Op_enterGestureMode reload) (p, g) =
     (if fts_disableInterruptNoSync_ret e <s OK cfg then (p, g)
      else if (reload = 1 \<or> p) \<and> \<not> setFeatures_ret e <s OK cfg then (False, False)
      else (p, g))"

fun history_from :: "config \<Rightarrow> (env \<times> operation) list \<Rightarrow> bool \<times> bool \<Rightarrow> bool \<times> bool" where
  "history_from cfg [] h = h"
| "history_from cfg ((e, oper) # steps) h = history_from cfg steps (history_step cfg e oper h)"

definition update_pending :: "config \<Rightarrow> (env \<times> operation) list \<Rightarrow> bool" where
  "update_pending cfg steps = fst (history_from cfg steps (False, False))"

definition push_gap :: "config \<Rightarrow> (env \<times> operation) list \<Rightarrow> bool" where
  "push_gap cfg steps = snd (history_from cfg steps (False, False))"

text \<open>What ties a state of the driver to the bookkeeping of the run that led to it.\<close>

definition in_step :: "config \<Rightarrow> driver_state \<Rightarrow> bool \<times> bool \<Rightarrow> bool" where
  "in_step cfg st h =
     (length (gesture_mask st) = GESTURE_MASK_SIZE cfg
      \<and> refreshGestureMask st = (if fst h then 1 else 0)
      \<and> (fst h \<or> snd h \<or> gesture_mask st = firmware_mask cfg st))"

section \<open>Reading the log\<close>

text \<open>The events a call appended to the log of the state it started from.\<close>

definition new_events :: "driver_state \<Rightarrow> driver_state \<Rightarrow> event list" where
  "new_events st st' = drop (length (trace st)) (trace st')"

fun is_mask_push :: "event \<Rightarrow> bool" where
  "is_mask_push (Ext (Call_setFeatures sel buf n) r) = True"
| "is_mask_push ev = False"

fun is_scan_request :: "event \<Rightarrow> bool" where
  "is_scan_request (Ext (Call_setScanMode m p) r) = True"
| "is_scan_request ev = False"

fun is_interrupt_enable :: "event \<Rightarrow> bool" where
  "is_interrupt_enable (Ext Call_fts_enableInterrupt r) = True"
| "is_interrupt_enable ev = False"

text \<open>
  The transport reads in a log: the frame-buffer offset and the number of bytes asked for,
  the latter read as the C \<^verbatim>\<open>int\<close> it is passed as.
\<close>

fun read_requests :: "event list \<Rightarrow> (u64 \<times> int) list" where
  "read_requests [] = []"
| "read_requests (Ext (Call_fts_writeReadU8UX c a addr n d) r # es) =
     (addr, sint n) # read_requests es"
| "read_requests (ev # es) = read_requests es"

definition count_events :: "(event \<Rightarrow> bool) \<Rightarrow> event list \<Rightarrow> nat" where
  "count_events P es = length (filter P es)"

section \<open>Sample inputs\<close>

text \<open>An environment in which every collaborator returns \<^verbatim>\<open>OK\<close> of \<open>sample_config\<close>.\<close>

definition env_ok :: env where
  "env_ok =
     \<lparr> fts_disableInterruptNoSync_ret = 0,
       setFeatures_ret = 0,
       setScanMode_ret = 0,
       fts_enableInterrupt_ret = 0,
       fts_writeReadU8UX_ret = 0,
       fts_writeReadU8UX_data = [] \<rparr>"

text \<open>A gesture report of eight bytes: offset \<open>0x1234\<close>, \<open>n\<close> coordinate pairs.\<close>

definition sample_report :: "u8 \<Rightarrow> u8 list" where
  "sample_report n = [0x53, 0x02, 0x00, 0x34, 0x12, n, 0x00, 0x00]"

section \<open>The two mask loops\<close>

lemma or_loop_length [simp]: "length (or_loop msk i sz gm) = length gm"
proof (induction msk i sz gm rule: or_loop.induct)
  case (1 msk i sz gm)
  show ?case
    using "1" by (subst or_loop.simps) simp
qed

lemma or_loop_nth:
  "0 \<le> i \<Longrightarrow> j < length gm \<Longrightarrow>
   or_loop msk i sz gm ! j =
     (if i \<le> int j \<and> int j < sz then (gm ! j) OR (msk ! j) else gm ! j)"
proof (induction msk i sz gm rule: or_loop.induct)
  case (1 msk i sz gm)
  let ?gm' = "gm[nat i := (gm ! nat i) OR (msk ! nat i)]"
  show ?case
  proof (cases "i < sz")
    case True
    have "or_loop msk i sz gm ! j = or_loop msk (i + 1) sz ?gm' ! j"
      using True by (subst or_loop.simps) simp
    also have "\<dots> = (if i + 1 \<le> int j \<and> int j < sz
                     then (?gm' ! j) OR (msk ! j) else ?gm' ! j)"
      using "1.IH" [OF True] "1.prems" by simp
    finally show ?thesis
      using "1.prems" True by (auto simp: nth_list_update)
  next
    case False
    then show ?thesis by (subst or_loop.simps) auto
  qed
qed

lemma clear_loop_length [simp]: "length (clear_loop msk i sz gm) = length gm"
proof (induction msk i sz gm rule: clear_loop.induct)
  case (1 msk i sz gm)
  show ?case
    using "1" by (subst clear_loop.simps) (simp add: Let_def)
qed

lemma clear_loop_nth:
  "0 \<le> i \<Longrightarrow> j < length gm \<Longrightarrow>
   clear_loop msk i sz gm ! j =
     (if i \<le> int j \<and> int j < sz then ((gm ! j) XOR (msk ! j)) AND (gm ! j) else gm ! j)"
proof (induction msk i sz gm rule: clear_loop.induct)
  case (1 msk i sz gm)
  let ?gm' = "gm[nat i := ((gm ! nat i) XOR (msk ! nat i)) AND (gm ! nat i)]"
  show ?case
  proof (cases "i < sz")
    case True
    have "clear_loop msk i sz gm ! j = clear_loop msk (i + 1) sz ?gm' ! j"
      using True by (subst clear_loop.simps) (simp add: Let_def)
    also have "\<dots> = (if i + 1 \<le> int j \<and> int j < sz
                     then ((?gm' ! j) XOR (msk ! j)) AND (?gm' ! j)
                     else ?gm' ! j)"
      using "1.IH" [OF True] "1.prems" by (simp add: Let_def)
    finally show ?thesis
      using "1.prems" True by (auto simp: nth_list_update)
  next
    case False
    then show ?thesis by (subst clear_loop.simps) auto
  qed
qed

text \<open>Setting the bits of \<open>d\<close> and clearing them again leaves \<open>g\<close> without them.\<close>

lemma or_then_clear: "(((g OR d) XOR d) AND (g OR d)) = g AND NOT (d :: u8)"
  by (rule bit_eqI) (auto simp: bit_simps)

lemma and_not_disjoint: "g AND d = 0 \<Longrightarrow> g AND NOT d = (g :: u8)"
proof -
  assume a: "g AND d = 0"
  have "g = g AND (d OR NOT d)" by simp
  also have "\<dots> = (g AND d) OR (g AND NOT d)" by (simp only: bit.conj_disj_distrib)
  finally show ?thesis using a by simp
qed

lemma replicate_4: "replicate 4 x = [x, x, x, x]"
  by (simp add: numeral_eq_Suc)

section \<open>The mask store\<close>

text \<open>
  C10: whenever \<^verbatim>\<open>updateGestureMask\<close> is given a null mask pointer, a size above
  \<^verbatim>\<open>GESTURE_MASK_SIZE\<close>, or a selector that is neither \<^verbatim>\<open>FEAT_ENABLE\<close> nor
  \<^verbatim>\<open>FEAT_DISABLE\<close>, it returns the error \<^verbatim>\<open>ERROR_OP_NOT_ALLOW\<close> and the whole driver
  state, the stored mask and the refresh flag in particular, is what it was before.
\<close>

theorem updateGestureMask_error_atomic:
  "msk = None \<or> int (GESTURE_MASK_SIZE cfg) < sz
     \<or> (en \<noteq> FEAT_ENABLE cfg \<and> en \<noteq> FEAT_DISABLE cfg) \<Longrightarrow>
   updateGestureMask cfg msk sz en st = (ERROR_OP_NOT_ALLOW cfg, st)"
  by (auto simp: updateGestureMask_def split: option.splits)

theorem updateGestureMask_error_atomic_witness:
  "updateGestureMask sample_config None 1 1 (init_state sample_config)
     = (0x80000006, init_state sample_config)
   \<and> updateGestureMask sample_config (Some [1, 2, 3, 4, 5]) 5 1 (init_state sample_config)
     = (0x80000006, init_state sample_config)
   \<and> updateGestureMask sample_config (Some [1]) 1 7 (init_state sample_config)
     = (0x80000006, init_state sample_config)"
  using updateGestureMask_error_atomic [of None sample_config 1 1 "init_state sample_config"]
    updateGestureMask_error_atomic
      [of "Some [1, 2, 3, 4, 5]" sample_config 5 1 "init_state sample_config"]
    updateGestureMask_error_atomic [of "Some [1]" sample_config 1 7 "init_state sample_config"]
  by (simp add: sample_config_def)

text \<open>
  C2, as the specification states it, fails: a bit that was already set before the merge
  is cleared by the clear that follows. From the initial state, enable bit 0; then merging
  the delta \<open>[1]\<close> and clearing it again leaves byte 0 at \<open>0\<close>, not at its pre-merge
  value \<open>1\<close>.
\<close>

theorem merge_then_clear_counterexample:
  "take 1 (gesture_mask
      (exec sample_config env_ok (Op_updateGestureMask (Some [1]) 1 0)
        (exec sample_config env_ok (Op_updateGestureMask (Some [1]) 1 1)
          (exec sample_config env_ok (Op_updateGestureMask (Some [1]) 1 1)
            (init_state sample_config)))))
   \<noteq> take 1 (gesture_mask
      (exec sample_config env_ok (Op_updateGestureMask (Some [1]) 1 1)
        (init_state sample_config)))"
  by (simp add: updateGestureMask_def sample_config_def init_state_def log_event_def
      or_loop.simps clear_loop.simps replicate_4)

text \<open>
  C2, amended: for a non-null delta \<open>D\<close> of at least \<open>sz\<close> bytes and
  \<open>0 \<le> sz \<le> GESTURE_MASK_SIZE\<close>, \<^verbatim>\<open>updateGestureMask\<close> with enable followed by
  \<^verbatim>\<open>updateGestureMask\<close> with disable leaves each of the low-order \<open>sz\<close> bytes of the
  stored mask equal to its pre-merge value with the bits of \<open>D\<close> cleared; the byte is
  restored to its pre-merge value wherever that value shares no bit with \<open>D\<close>.
\<close>

theorem merge_then_clear:
  assumes sz: "0 \<le> sz" "sz \<le> int (GESTURE_MASK_SIZE cfg)"
    and len: "length (gesture_mask st) = GESTURE_MASK_SIZE cfg" "sz \<le> int (length D)"
    and sel: "FEAT_ENABLE cfg \<noteq> FEAT_DISABLE cfg"
    and i: "int i < sz"
  shows "gesture_mask
           (snd (updateGestureMask cfg (Some D) sz (FEAT_DISABLE cfg)
                  (snd (updateGestureMask cfg (Some D) sz (FEAT_ENABLE cfg) st)))) ! i
         = (gesture_mask st ! i) AND NOT (D ! i)
       \<and> ((gesture_mask st ! i) AND (D ! i) = 0 \<longrightarrow>
           gesture_mask
             (snd (updateGestureMask cfg (Some D) sz (FEAT_DISABLE cfg)
                    (snd (updateGestureMask cfg (Some D) sz (FEAT_ENABLE cfg) st)))) ! i
           = gesture_mask st ! i)"
proof -
  let ?gm = "gesture_mask st"
  have final: "gesture_mask
           (snd (updateGestureMask cfg (Some D) sz (FEAT_DISABLE cfg)
                  (snd (updateGestureMask cfg (Some D) sz (FEAT_ENABLE cfg) st))))
        = clear_loop D 0 sz (or_loop D 0 sz ?gm)"
    using sz sel by (simp add: updateGestureMask_def log_event_def Let_def)
  have ilen: "i < length ?gm"
    using i sz len by simp
  have "clear_loop D 0 sz (or_loop D 0 sz ?gm) ! i = (?gm ! i) AND NOT (D ! i)"
    using ilen i by (simp add: clear_loop_nth or_loop_nth or_then_clear)
  with final show ?thesis
    by (simp add: and_not_disjoint)
qed

theorem merge_then_clear_witness:
  "(0::int) \<le> 1 \<and> 1 \<le> int (GESTURE_MASK_SIZE sample_config)
   \<and> length (gesture_mask (init_state sample_config\<lparr>gesture_mask := [3, 0, 0, 0]\<rparr>))
       = GESTURE_MASK_SIZE sample_config
   \<and> 1 \<le> int (length [6 :: u8])
   \<and> FEAT_ENABLE sample_config \<noteq> FEAT_DISABLE sample_config
   \<and> int 0 < 1
   \<and> gesture_mask
       (snd (updateGestureMask sample_config (Some [6]) 1 (FEAT_DISABLE sample_config)
              (snd (updateGestureMask sample_config (Some [6]) 1 (FEAT_ENABLE sample_config)
                     (init_state sample_config\<lparr>gesture_mask := [3, 0, 0, 0]\<rparr>))))) ! 0 = 1"
proof -
  have h: "(0::int) \<le> 1" "1 \<le> int (GESTURE_MASK_SIZE sample_config)"
    "length (gesture_mask (init_state sample_config\<lparr>gesture_mask := [3, 0, 0, 0]\<rparr>))
       = GESTURE_MASK_SIZE sample_config"
    "1 \<le> int (length [6 :: u8])"
    "FEAT_ENABLE sample_config \<noteq> FEAT_DISABLE sample_config"
    "int 0 < 1"
    by (simp_all add: sample_config_def)
  show ?thesis
    using h merge_then_clear [OF h] by simp
qed

section \<open>Gesture mode entry and the mask synchroniser\<close>

lemma trace_log_event [simp]: "trace (log_event ev st) = trace st @ [ev]"
  by (simp add: log_event_def)

lemma gesture_mask_log_event [simp]: "gesture_mask (log_event ev st) = gesture_mask st"
  by (simp add: log_event_def)

lemma refresh_log_event [simp]: "refreshGestureMask (log_event ev st) = refreshGestureMask st"
  by (simp add: log_event_def)

lemma new_events_append [simp]: "trace st' = trace st @ es \<Longrightarrow> new_events st st' = es"
  by (simp add: new_events_def)

lemma enableGesture_null:
  "enableGesture cfg e None 0 st =
     (if setFeatures_ret e <s OK cfg then setFeatures_ret e else OK cfg,
      st\<lparr>trace := trace st @
            [Mutex_lock,
             Ext (Call_setFeatures (FEAT_SEL_GESTURE cfg) (Buf_gesture_mask (gesture_mask st))
                    (GESTURE_MASK_SIZE cfg)) (setFeatures_ret e),
             Mutex_unlock]\<rparr>)"
  by (simp add: enableGesture_def log_event_def Let_def)

lemma disableGesture_null:
  "disableGesture cfg e None 0 st =
     (if setFeatures_ret e <s OK cfg then setFeatures_ret e else OK cfg,
      st\<lparr>trace := trace st @
            [Mutex_lock,
             Ext (Call_setFeatures (FEAT_SEL_GESTURE cfg) (Buf_local_i [0, 0, 0, 0])
                    (GESTURE_MASK_SIZE cfg)) (setFeatures_ret e),
             Mutex_unlock]\<rparr>)"
  by (simp add: disableGesture_def log_event_def Let_def replicate_4)

lemma enterGestureMode_END_trace:
  "enterGestureMode_END cfg e res st =
     (if fts_enableInterrupt_ret e <s OK cfg
      then res OR (fts_enableInterrupt_ret e OR ERROR_ENABLE_INTER cfg) else res,
      st\<lparr>trace := trace st @ [Ext Call_fts_enableInterrupt (fts_enableInterrupt_ret e)]\<rparr>)"
  by (simp add: enterGestureMode_END_def log_event_def Let_def)

lemma enterGestureMode_scan_trace:
  "snd (enterGestureMode_scan cfg e st) =
     st\<lparr>trace := trace st @
           [Ext (Call_setScanMode (SCAN_MODE_LOW_POWER cfg) 0) (setScanMode_ret e),
            Ext Call_fts_enableInterrupt (fts_enableInterrupt_ret e)]\<rparr>"
  by (simp add: enterGestureMode_scan_def enterGestureMode_END_trace log_event_def Let_def)

lemma enterGestureMode_reload_trace:
  assumes "\<not> fts_disableInterruptNoSync_ret e <s OK cfg"
  shows "new_events st (snd (enterGestureMode cfg e 1 st)) =
     [Ext Call_fts_disableInterruptNoSync (fts_disableInterruptNoSync_ret e),
      Mutex_lock,
      Ext (Call_setFeatures (FEAT_SEL_GESTURE cfg) (Buf_gesture_mask (gesture_mask st))
             (GESTURE_MASK_SIZE cfg)) (setFeatures_ret e),
      Mutex_unlock]
     @ (if setFeatures_ret e <s OK cfg then []
        else [Ext (Call_setScanMode (SCAN_MODE_LOW_POWER cfg) 0) (setScanMode_ret e)])
     @ [Ext Call_fts_enableInterrupt (fts_enableInterrupt_ret e)]"
  using assms
  by (simp add: enterGestureMode_def enableGesture_null enterGestureMode_END_trace
      enterGestureMode_scan_trace log_event_def Let_def new_events_def)

text \<open>
  C1, as the specification states it, fails: when the mask push fails,
  \<^verbatim>\<open>enterGestureMode\<close> jumps to \<^verbatim>\<open>END\<close> and \<^verbatim>\<open>setScanMode\<close> is not called. With
  \<^verbatim>\<open>setFeatures\<close> returning the negative code \<open>0x80000002\<close> and the interrupt disable
  succeeding, the call issues no scan-mode request.
\<close>

theorem enterGestureMode_reload_counterexample:
  "\<not> fts_disableInterruptNoSync_ret (env_ok\<lparr>setFeatures_ret := 0x80000002\<rparr>) <s OK sample_config
   \<and> count_events is_scan_request
       (new_events (init_state sample_config)
          (snd (enterGestureMode sample_config (env_ok\<lparr>setFeatures_ret := 0x80000002\<rparr>) 1
                 (init_state sample_config)))) \<noteq> 1"
  by (simp add: enterGestureMode_def enableGesture_null enterGestureMode_END_trace
      log_event_def Let_def new_events_def count_events_def sample_config_def env_ok_def
      init_state_def word_sless_alt)

text \<open>
  C1, amended: for every call \<^verbatim>\<open>enterGestureMode(1)\<close> in which the interrupt disable
  succeeds, the function issues exactly one mask push and exactly one interrupt re-enable
  call, even when the push or the scan-mode call fails; it issues exactly one scan-mode
  request when the push succeeds and none when the push fails.
\<close>

theorem enterGestureMode_reload_calls:
  assumes "\<not> fts_disableInterruptNoSync_ret e <s OK cfg"
  shows "count_events is_mask_push (new_events st (snd (enterGestureMode cfg e 1 st))) = 1
       \<and> count_events is_interrupt_enable (new_events st (snd (enterGestureMode cfg e 1 st))) = 1
       \<and> count_events is_scan_request (new_events st (snd (enterGestureMode cfg e 1 st)))
           = (if setFeatures_ret e <s OK cfg then 0 else 1)"
  by (simp add: enterGestureMode_reload_trace [OF assms] count_events_def)

theorem enterGestureMode_reload_calls_witness:
  "\<not> fts_disableInterruptNoSync_ret (env_ok\<lparr>setScanMode_ret := 0x80000002\<rparr>) <s OK sample_config
   \<and> count_events is_mask_push
       (new_events (init_state sample_config)
          (snd (enterGestureMode sample_config (env_ok\<lparr>setScanMode_ret := 0x80000002\<rparr>) 1
                 (init_state sample_config)))) = 1
   \<and> count_events is_interrupt_enable
       (new_events (init_state sample_config)
          (snd (enterGestureMode sample_config (env_ok\<lparr>setScanMode_ret := 0x80000002\<rparr>) 1
                 (init_state sample_config)))) = 1
   \<and> count_events is_scan_request
       (new_events (init_state sample_config)
          (snd (enterGestureMode sample_config (env_ok\<lparr>setScanMode_ret := 0x80000002\<rparr>) 1
                 (init_state sample_config)))) = 1"
proof -
  have h: "\<not> fts_disableInterruptNoSync_ret (env_ok\<lparr>setScanMode_ret := 0x80000002\<rparr>)
             <s OK sample_config"
    by (simp add: sample_config_def env_ok_def word_sless_alt)
  have ok: "\<not> setFeatures_ret (env_ok\<lparr>setScanMode_ret := 0x80000002\<rparr>) <s OK sample_config"
    by (simp add: sample_config_def env_ok_def word_sless_alt)
  show ?thesis
    using h ok enterGestureMode_reload_calls [OF h, of "init_state sample_config"]
    by simp
qed

text \<open>
  C8: whenever \<^verbatim>\<open>fts_disableInterruptNoSync\<close> fails, \<^verbatim>\<open>enterGestureMode\<close> returns its
  error code combined with \<^verbatim>\<open>ERROR_DISABLE_INTER\<close>, and the failed call is the only
  event of the run: no mask push, no scan-mode request, no interrupt re-enable, and no
  change to the driver's variables.
\<close>

theorem enterGestureMode_disable_fails:
  "fts_disableInterruptNoSync_ret e <s OK cfg \<Longrightarrow>
   enterGestureMode cfg e reload st =
     (fts_disableInterruptNoSync_ret e OR ERROR_DISABLE_INTER cfg,
      st\<lparr>trace := trace st @
            [Ext Call_fts_disableInterruptNoSync (fts_disableInterruptNoSync_ret e)]\<rparr>)"
  by (simp add: enterGestureMode_def log_event_def Let_def)

theorem enterGestureMode_disable_fails_witness:
  "fts_disableInterruptNoSync_ret (env_ok\<lparr>fts_disableInterruptNoSync_ret := 0x80000002\<rparr>)
     <s OK sample_config
   \<and> enterGestureMode sample_config (env_ok\<lparr>fts_disableInterruptNoSync_ret := 0x80000002\<rparr>) 1
       (init_state sample_config)
     = (0x80000202,
        init_state sample_config\<lparr>trace := [Ext Call_fts_disableInterruptNoSync 0x80000002]\<rparr>)"
proof -
  have h: "fts_disableInterruptNoSync_ret (env_ok\<lparr>fts_disableInterruptNoSync_ret := 0x80000002\<rparr>)
     <s OK sample_config"
    by (simp add: sample_config_def word_sless_alt)
  show ?thesis
    using h enterGestureMode_disable_fails [OF h, of 1 "init_state sample_config"]
    by (simp add: sample_config_def init_state_def)
qed

text \<open>
  C9: \<^verbatim>\<open>disableGesture(NULL, 0)\<close> leaves the stored gesture mask as it was, whatever
  the state and whatever \<^verbatim>\<open>setFeatures\<close> returns, and an \<^verbatim>\<open>enableGesture(NULL, 0)\<close>
  that follows hands \<^verbatim>\<open>setFeatures\<close> exactly the mask stored before the disable call,
  with the full \<^verbatim>\<open>GESTURE_MASK_SIZE\<close> as length.
\<close>

theorem disable_null_keeps_mask:
  "gesture_mask (snd (disableGesture cfg e None 0 st)) = gesture_mask st
   \<and> new_events (snd (disableGesture cfg e None 0 st))
        (snd (enableGesture cfg e' None 0 (snd (disableGesture cfg e None 0 st))))
     = [Mutex_lock,
        Ext (Call_setFeatures (FEAT_SEL_GESTURE cfg) (Buf_gesture_mask (gesture_mask st))
               (GESTURE_MASK_SIZE cfg)) (setFeatures_ret e'),
        Mutex_unlock]"
  by (simp add: disableGesture_null enableGesture_null)

section \<open>The coordinate decoder\<close>

text \<open>
  C6: an event whose byte 0 is not \<^verbatim>\<open>EVT_ID_USER_REPORT\<close> or whose byte 1 is not
  \<^verbatim>\<open>EVT_TYPE_USER_GESTURE\<close> makes \<^verbatim>\<open>readGestureCoords\<close> return
  \<^verbatim>\<open>ERROR_OP_NOT_ALLOW\<close> with the state untouched: no transport read is logged, and
  the coordinate arrays and the stored count keep their values.
\<close>

theorem readGestureCoords_rejects:
  "(ucast (ev ! 0) :: s32) \<noteq> EVT_ID_USER_REPORT cfg
     \<or> (ucast (ev ! 1) :: s32) \<noteq> EVT_TYPE_USER_GESTURE cfg \<Longrightarrow>
   readGestureCoords cfg e ev st = (ERROR_OP_NOT_ALLOW cfg, st)"
  by (auto simp: readGestureCoords_def)

theorem readGestureCoords_rejects_witness:
  "readGestureCoords sample_config env_ok [0x53, 0x01, 0, 0x34, 0x12, 1, 0, 0]
     (init_state sample_config) = (0x80000006, init_state sample_config)
   \<and> readGestureCoords sample_config env_ok [0x43, 0x02, 0, 0x34, 0x12, 1, 0, 0]
     (init_state sample_config) = (0x80000006, init_state sample_config)"
  using readGestureCoords_rejects [of "[0x53, 0x01, 0, 0x34, 0x12, 1, 0, 0]" sample_config
      env_ok "init_state sample_config"]
    readGestureCoords_rejects [of "[0x43, 0x02, 0, 0x34, 0x12, 1, 0, 0]" sample_config
      env_ok "init_state sample_config"]
  by (simp add: sample_config_def)

lemma bit_u8_lt: "bit (w :: u8) n \<Longrightarrow> n < 8"
  by (auto dest: bit_imp_le_length)

lemma address_eq:
  "(scast (push_bit 8 (ucast (e4 :: u8) :: s32) OR ucast (e3 :: u8)) :: u64)
     = push_bit 8 (ucast e4) OR ucast e3"
  apply (rule bit_eqI)
  apply (auto simp: bit_simps min_def dest: bit_u8_lt split: if_splits)
  done

lemma sint_of_nat_s32: "n < 2 ^ 31 \<Longrightarrow> sint (word_of_nat n :: s32) = int n"
proof -
  assume n: "n < 2 ^ 31"
  have "sint (word_of_int (int n) :: s32) = signed_take_bit (LENGTH(32) - 1) (int n)"
    by (rule sint_sbintrunc')
  then have "sint (word_of_nat n :: s32) = signed_take_bit 31 (int n)"
    by simp
  also have "\<dots> = int n"
    using n by (intro signed_take_bit_int_eq_self) auto
  finally show ?thesis .
qed

lemma unat_u8_lt: "unat (w :: u8) < 256"
  using unsigned_less [of w, where ?'a = nat] by simp

lemma ucast_u8_s32: "(word_of_nat (unat (w :: u8)) :: s32) = ucast w"
  by simp

lemma sint_ucast_u8: "sint (ucast (w :: u8) :: s32) = int (unat w)"
proof -
  have "unat w < 2 ^ 31"
    using unat_u8_lt [of w] by simp
  then have "sint (word_of_nat (unat w) :: s32) = int (unat w)"
    by (rule sint_of_nat_s32)
  then show ?thesis
    by (simp only: ucast_u8_s32)
qed

lemma clamp_test: "(int m < sint (ucast (w :: u8) :: s32)) = (m < unat w)"
  by (simp only: sint_ucast_u8 of_nat_less_iff)

lemma sint_clamped: "sint (word_of_nat (min (unat (w :: u8)) m) :: s32) = int (min (unat w) m)"
proof -
  have "min (unat w) m < 2 ^ 31"
    using unat_u8_lt [of w] by simp
  then show ?thesis by (rule sint_of_nat_s32)
qed

lemma sint_clamped_bytes:
  "sint ((word_of_nat (min (unat (w :: u8)) m) :: s32) * 2 * 2) = 4 * int (min (unat w) m)"
proof -
  have eq: "(word_of_nat (min (unat w) m) :: s32) * 2 * 2 = word_of_nat (min (unat w) m * 4)"
    by simp
  have "min (unat w) m * 4 < 2 ^ 31"
    using unat_u8_lt [of w] by simp
  then have "sint (word_of_nat (min (unat w) m * 4) :: s32) = int (min (unat w) m * 4)"
    by (rule sint_of_nat_s32)
  then show ?thesis
    by (simp only: eq)
qed

lemma readGestureCoords_valid:
  assumes "(ucast (ev ! 0) :: s32) = EVT_ID_USER_REPORT cfg"
    and "(ucast (ev ! 1) :: s32) = EVT_TYPE_USER_GESTURE cfg"
  shows "readGestureCoords cfg e ev st =
    (let n = (word_of_nat (min (unat (ev ! 5)) (GESTURE_MAX_COORDS_PAIRS_REPORT cfg)) :: s32);
         st3 = st\<lparr>gesture_coords_reported := n,
                  trace := trace st @
                    [Ext (Call_fts_writeReadU8UX (FTS_CMD_FRAMEBUFFER_R cfg) (BITS_16 cfg)
                            (push_bit 8 (ucast (ev ! 4)) OR ucast (ev ! 3)) (n * 2 * 2)
                            (DUMMY_FRAMEBUFFER cfg)) (fts_writeReadU8UX_ret e)]\<rparr>
     in if fts_writeReadU8UX_ret e <s OK cfg
        then (fts_writeReadU8UX_ret e, st3\<lparr>gesture_coords_reported := ERROR_OP_NOT_ALLOW cfg\<rparr>)
        else (OK cfg,
              st3\<lparr>gesture_coordinates_x :=
                     fst (coords_loop (fts_writeReadU8UX_data e) (sint n) 0
                            (gesture_coordinates_x st, gesture_coordinates_y st)),
                   gesture_coordinates_y :=
                     snd (coords_loop (fts_writeReadU8UX_data e) (sint n) 0
                            (gesture_coordinates_x st, gesture_coordinates_y st))\<rparr>))"
proof -
  let ?n = "word_of_nat (min (unat (ev ! 5)) (GESTURE_MAX_COORDS_PAIRS_REPORT cfg)) :: s32"
  let ?st1 = "st\<lparr>gesture_coords_reported := ucast (ev ! 5)\<rparr>"
  have st2: "(if int (GESTURE_MAX_COORDS_PAIRS_REPORT cfg) < sint (gesture_coords_reported ?st1)
              then ?st1\<lparr>gesture_coords_reported :=
                           word_of_nat (GESTURE_MAX_COORDS_PAIRS_REPORT cfg)\<rparr>
              else ?st1) = st\<lparr>gesture_coords_reported := ?n\<rparr>"
  proof (cases "GESTURE_MAX_COORDS_PAIRS_REPORT cfg < unat (ev ! 5)")
    case True
    then have "min (unat (ev ! 5)) (GESTURE_MAX_COORDS_PAIRS_REPORT cfg)
                 = GESTURE_MAX_COORDS_PAIRS_REPORT cfg" by simp
    with True show ?thesis by (simp add: clamp_test)
  next
    case False
    then have "?n = word_of_nat (unat (ev ! 5))" by (simp add: min_def)
    with False show ?thesis by (simp add: clamp_test)
  qed
  show ?thesis
    unfolding readGestureCoords_def Let_def st2
    using assms by (simp add: log_event_def address_eq case_prod_beta)
qed

text \<open>
  C7: when the header is valid and \<^verbatim>\<open>fts_writeReadU8UX\<close> fails,
  \<^verbatim>\<open>readGestureCoords\<close> returns the transport's error code unchanged and sets
  \<^verbatim>\<open>gesture_coords_reported\<close> to the sentinel \<^verbatim>\<open>ERROR_OP_NOT_ALLOW\<close>, which is the
  count a \<^verbatim>\<open>getGestureCoords\<close> call that follows returns.
\<close>

theorem readGestureCoords_transport_failure:
  assumes "(ucast (ev ! 0) :: s32) = EVT_ID_USER_REPORT cfg"
    and "(ucast (ev ! 1) :: s32) = EVT_TYPE_USER_GESTURE cfg"
    and "fts_writeReadU8UX_ret e <s OK cfg"
  shows "fst (readGestureCoords cfg e ev st) = fts_writeReadU8UX_ret e
       \<and> gesture_coords_reported (snd (readGestureCoords cfg e ev st)) = ERROR_OP_NOT_ALLOW cfg
       \<and> snd (snd (getGestureCoords (snd (readGestureCoords cfg e ev st))))
           = ERROR_OP_NOT_ALLOW cfg"
  using assms by (simp add: readGestureCoords_def getGestureCoords_def log_event_def Let_def)

theorem readGestureCoords_transport_failure_witness:
  "(ucast (sample_report 1 ! 0) :: s32) = EVT_ID_USER_REPORT sample_config
   \<and> (ucast (sample_report 1 ! 1) :: s32) = EVT_TYPE_USER_GESTURE sample_config
   \<and> fts_writeReadU8UX_ret (env_ok\<lparr>fts_writeReadU8UX_ret := 0x80000002\<rparr>) <s OK sample_config
   \<and> fst (readGestureCoords sample_config (env_ok\<lparr>fts_writeReadU8UX_ret := 0x80000002\<rparr>)
            (sample_report 1) (init_state sample_config\<lparr>gesture_coords_reported := 3\<rparr>))
       = 0x80000002
   \<and> snd (snd (getGestureCoords
        (snd (readGestureCoords sample_config (env_ok\<lparr>fts_writeReadU8UX_ret := 0x80000002\<rparr>)
            (sample_report 1) (init_state sample_config\<lparr>gesture_coords_reported := 3\<rparr>)))))
       = 0x80000006"
proof -
  have h: "(ucast (sample_report 1 ! 0) :: s32) = EVT_ID_USER_REPORT sample_config"
    "(ucast (sample_report 1 ! 1) :: s32) = EVT_TYPE_USER_GESTURE sample_config"
    "fts_writeReadU8UX_ret (env_ok\<lparr>fts_writeReadU8UX_ret := 0x80000002\<rparr>) <s OK sample_config"
    by (simp_all add: sample_config_def sample_report_def word_sless_alt)
  show ?thesis
    using h readGestureCoords_transport_failure [OF h,
        of "init_state sample_config\<lparr>gesture_coords_reported := 3\<rparr>"]
    by (simp add: sample_config_def)
qed

text \<open>
  C5: for a report with a valid header, \<^verbatim>\<open>readGestureCoords\<close> issues exactly one
  transport read, at the offset \<open>(event[4] << 8) | event[3]\<close> and of four bytes per
  pair of the count \<open>event[5]\<close> clamped to \<^verbatim>\<open>GESTURE_MAX_COORDS_PAIRS_REPORT\<close>; the
  clamping is no error: when the read succeeds the function returns \<^verbatim>\<open>OK\<close> and the
  stored count is the clamped count.
\<close>

theorem readGestureCoords_request:
  assumes "(ucast (ev ! 0) :: s32) = EVT_ID_USER_REPORT cfg"
    and "(ucast (ev ! 1) :: s32) = EVT_TYPE_USER_GESTURE cfg"
  shows "read_requests (new_events st (snd (readGestureCoords cfg e ev st)))
           = [(push_bit 8 (ucast (ev ! 4)) OR ucast (ev ! 3),
               4 * int (min (unat (ev ! 5)) (GESTURE_MAX_COORDS_PAIRS_REPORT cfg)))]
       \<and> (\<not> fts_writeReadU8UX_ret e <s OK cfg \<longrightarrow>
            fst (readGestureCoords cfg e ev st) = OK cfg
            \<and> sint (gesture_coords_reported (snd (readGestureCoords cfg e ev st)))
                = int (min (unat (ev ! 5)) (GESTURE_MAX_COORDS_PAIRS_REPORT cfg)))"
proof -
  let ?n = "word_of_nat (min (unat (ev ! 5)) (GESTURE_MAX_COORDS_PAIRS_REPORT cfg)) :: s32"
  let ?ev = "Ext (Call_fts_writeReadU8UX (FTS_CMD_FRAMEBUFFER_R cfg) (BITS_16 cfg)
                   (push_bit 8 (ucast (ev ! 4)) OR ucast (ev ! 3)) (?n * 2 * 2)
                   (DUMMY_FRAMEBUFFER cfg)) (fts_writeReadU8UX_ret e)"
  have tr: "trace (snd (readGestureCoords cfg e ev st)) = trace st @ [?ev]"
    by (simp add: readGestureCoords_valid [OF assms] Let_def)
  have "new_events st (snd (readGestureCoords cfg e ev st)) = [?ev]"
    unfolding new_events_def tr by simp
  then have req: "read_requests (new_events st (snd (readGestureCoords cfg e ev st)))
           = [(push_bit 8 (ucast (ev ! 4)) OR ucast (ev ! 3),
               4 * int (min (unat (ev ! 5)) (GESTURE_MAX_COORDS_PAIRS_REPORT cfg)))]"
    by (simp only: read_requests.simps sint_clamped_bytes)
  have ok: "\<not> fts_writeReadU8UX_ret e <s OK cfg \<Longrightarrow>
            fst (readGestureCoords cfg e ev st) = OK cfg
            \<and> gesture_coords_reported (snd (readGestureCoords cfg e ev st)) = ?n"
    by (simp add: readGestureCoords_valid [OF assms] Let_def)
  have "fst (readGestureCoords cfg e ev st) = OK cfg
        \<and> sint (gesture_coords_reported (snd (readGestureCoords cfg e ev st)))
            = int (min (unat (ev ! 5)) (GESTURE_MAX_COORDS_PAIRS_REPORT cfg))"
    if "\<not> fts_writeReadU8UX_ret e <s OK cfg"
    using ok [OF that] by (simp only: sint_clamped)
  with req show ?thesis
    by blast
qed


theorem readGestureCoords_request_witness:
  "(ucast (sample_report 105 ! 0) :: s32) = EVT_ID_USER_REPORT sample_config
   \<and> (ucast (sample_report 105 ! 1) :: s32) = EVT_TYPE_USER_GESTURE sample_config
   \<and> \<not> fts_writeReadU8UX_ret env_ok <s OK sample_config
   \<and> read_requests (new_events (init_state sample_config)
         (snd (readGestureCoords sample_config env_ok (sample_report 105)
                (init_state sample_config)))) = [(0x1234, 400)]
   \<and> fst (readGestureCoords sample_config env_ok (sample_report 105)
            (init_state sample_config)) = 0
   \<and> sint (gesture_coords_reported
        (snd (readGestureCoords sample_config env_ok (sample_report 105)
               (init_state sample_config)))) = 100"
proof -
  have h: "(ucast (sample_report 105 ! 0) :: s32) = EVT_ID_USER_REPORT sample_config"
    "(ucast (sample_report 105 ! 1) :: s32) = EVT_TYPE_USER_GESTURE sample_config"
    by (simp_all add: sample_config_def sample_report_def)
  have ok: "\<not> fts_writeReadU8UX_ret env_ok <s OK sample_config"
    by (simp add: sample_config_def env_ok_def)
  show ?thesis
    using h ok readGestureCoords_request [OF h, of "init_state sample_config" env_ok]
    by (simp add: sample_config_def sample_report_def)
qed

lemma coords_loop_length:
  "length (fst (coords_loop val n i (xs, ys))) = length xs
   \<and> length (snd (coords_loop val n i (xs, ys))) = length ys"
proof (induction val n i "(xs, ys)" arbitrary: xs ys rule: coords_loop.induct)
  case (1 val n i xs ys)
  show ?case
    using "1" by (subst (1 2) coords_loop.simps) simp
qed

lemma coords_loop_nth:
  "0 \<le> i \<Longrightarrow> j < length xs \<Longrightarrow> j < length ys \<Longrightarrow>
   fst (coords_loop val n i (xs, ys)) ! j =
     (if i \<le> int j \<and> int j < n
      then coord12 (val ! nat (int j * 2 + 1)) (val ! nat (int j * 2)) else xs ! j)
   \<and> snd (coords_loop val n i (xs, ys)) ! j =
     (if i \<le> int j \<and> int j < n
      then coord12 (val ! nat (n * 2 + int j * 2 + 1)) (val ! nat (n * 2 + int j * 2))
      else ys ! j)"
proof (induction val n i "(xs, ys)" arbitrary: xs ys rule: coords_loop.induct)
  case (1 val n i xs ys)
  let ?xs' = "xs[nat i := coord12 (val ! nat (i * 2 + 1)) (val ! nat (i * 2))]"
  let ?ys' = "ys[nat i := coord12 (val ! nat (n * 2 + i * 2 + 1)) (val ! nat (n * 2 + i * 2))]"
  show ?case
  proof (cases "i < n")
    case True
    have unf: "coords_loop val n i (xs, ys) = coords_loop val n (i + 1) (?xs', ?ys')"
      using True by (subst coords_loop.simps) simp
    have IH: "fst (coords_loop val n (i + 1) (?xs', ?ys')) ! j =
        (if i + 1 \<le> int j \<and> int j < n
         then coord12 (val ! nat (int j * 2 + 1)) (val ! nat (int j * 2)) else ?xs' ! j)
      \<and> snd (coords_loop val n (i + 1) (?xs', ?ys')) ! j =
        (if i + 1 \<le> int j \<and> int j < n
         then coord12 (val ! nat (n * 2 + int j * 2 + 1)) (val ! nat (n * 2 + int j * 2))
         else ?ys' ! j)"
      using "1.hyps" [OF True] "1.prems" by simp
    show ?thesis
    proof (cases "int j = i")
      case True
      then have "nat i = j" by simp
      with IH \<open>int j = i\<close> \<open>i < n\<close> "1.prems" show ?thesis
        unfolding unf by simp
    next
      case False
      then have "nat i \<noteq> j" using "1.prems" by auto
      with IH False "1.prems" show ?thesis
        unfolding unf by auto
    qed
  next
    case False
    then show ?thesis by (subst (1 2) coords_loop.simps) auto
  qed
qed

lemma mask4_s32: "(0x0F :: s32) = mask 4" by (simp add: mask_eq_exp_minus_1)
lemma mask8_s32: "(0xFF :: s32) = mask 8" by (simp add: mask_eq_exp_minus_1)
lemma mask4_u8: "(0x0F :: u8) = mask 4" by (simp add: mask_eq_exp_minus_1)

lemma coord12_eq: "coord12 hi lo = push_bit 8 (ucast (hi AND 0x0F)) OR ucast lo"
  unfolding coord12_def mask4_s32 mask8_s32 mask4_u8
  apply (rule bit_eqI)
  apply (auto simp: bit_simps dest: bit_imp_le_length)
  done

text \<open>
  C4: after a successful read of a valid report with (clamped) count \<open>c\<close>, for every
  index \<open>i < c\<close> the stored coordinates are
  \<open>x[i] = ((buf[2i+1] & 0x0F) << 8) | buf[2i]\<close> and
  \<open>y[i] = ((buf[2c+2i+1] & 0x0F) << 8) | buf[2c+2i]\<close>, where \<open>buf\<close> is what the transport
  delivered. For instance, the payload \<open>[0xBC, 0x0A, 0xEF, 0x0D]\<close> with count 1
  decodes to \<open>x[0] = 0x0ABC\<close> and \<open>y[0] = 0x0DEF\<close>.
\<close>

theorem readGestureCoords_decodes:
  assumes hdr: "(ucast (ev ! 0) :: s32) = EVT_ID_USER_REPORT cfg"
      "(ucast (ev ! 1) :: s32) = EVT_TYPE_USER_GESTURE cfg"
    and ok: "\<not> fts_writeReadU8UX_ret e <s OK cfg"
    and c: "c = min (unat (ev ! 5)) (GESTURE_MAX_COORDS_PAIRS_REPORT cfg)"
    and buf: "buf = fts_writeReadU8UX_data e" "4 * c \<le> length buf"
    and len: "length (gesture_coordinates_x st) = GESTURE_MAX_COORDS_PAIRS_REPORT cfg"
      "length (gesture_coordinates_y st) = GESTURE_MAX_COORDS_PAIRS_REPORT cfg"
    and i: "i < c"
  shows "gesture_coordinates_x (snd (readGestureCoords cfg e ev st)) ! i
           = push_bit 8 (ucast (buf ! (2 * i + 1) AND 0x0F)) OR ucast (buf ! (2 * i))
       \<and> gesture_coordinates_y (snd (readGestureCoords cfg e ev st)) ! i
           = push_bit 8 (ucast (buf ! (2 * c + 2 * i + 1) AND 0x0F))
               OR ucast (buf ! (2 * c + 2 * i))"
proof -
  let ?n = "word_of_nat c :: s32"
  have n: "sint ?n = int c"
    unfolding c by (rule sint_clamped)
  have xy: "gesture_coordinates_x (snd (readGestureCoords cfg e ev st))
              = fst (coords_loop buf (int c) 0 (gesture_coordinates_x st, gesture_coordinates_y st))"
    "gesture_coordinates_y (snd (readGestureCoords cfg e ev st))
              = snd (coords_loop buf (int c) 0 (gesture_coordinates_x st, gesture_coordinates_y st))"
    using ok n by (simp_all add: readGestureCoords_valid [OF hdr] Let_def c [symmetric] buf)
  have j: "i < length (gesture_coordinates_x st)" "i < length (gesture_coordinates_y st)"
    using i c len by simp_all
  have ix: "nat (int i * 2 + 1) = 2 * i + 1" "nat (int i * 2) = 2 * i"
    "nat (int c * 2 + int i * 2 + 1) = 2 * c + 2 * i + 1"
    "nat (int c * 2 + int i * 2) = 2 * c + 2 * i"
    by (simp_all add: nat_add_distrib nat_mult_distrib)
  show ?thesis
    unfolding xy
    using coords_loop_nth [of 0 i "gesture_coordinates_x st" "gesture_coordinates_y st" buf "int c"]
      j i
    by (simp add: ix coord12_eq)
qed

theorem readGestureCoords_decodes_witness:
  "gesture_coordinates_x
     (snd (readGestureCoords sample_config
            (env_ok\<lparr>fts_writeReadU8UX_data := [0xBC, 0x0A, 0xEF, 0x0D]\<rparr>)
            (sample_report 1) (init_state sample_config))) ! 0 = 0x0ABC
   \<and> gesture_coordinates_y
     (snd (readGestureCoords sample_config
            (env_ok\<lparr>fts_writeReadU8UX_data := [0xBC, 0x0A, 0xEF, 0x0D]\<rparr>)
            (sample_report 1) (init_state sample_config))) ! 0 = 0x0DEF"
proof -
  let ?e = "env_ok\<lparr>fts_writeReadU8UX_data := [0xBC, 0x0A, 0xEF, 0x0D]\<rparr>"
  have hdr: "(ucast (sample_report 1 ! 0) :: s32) = EVT_ID_USER_REPORT sample_config"
    "(ucast (sample_report 1 ! 1) :: s32) = EVT_TYPE_USER_GESTURE sample_config"
    by (simp_all add: sample_config_def sample_report_def)
  have ok: "\<not> fts_writeReadU8UX_ret ?e <s OK sample_config"
    by (simp add: sample_config_def env_ok_def)
  have c: "(1::nat) = min (unat (sample_report 1 ! 5)) (GESTURE_MAX_COORDS_PAIRS_REPORT sample_config)"
    by (simp add: sample_config_def sample_report_def)
  have buf: "[0xBC, 0x0A, 0xEF, 0x0D] = fts_writeReadU8UX_data ?e"
    "4 * 1 \<le> length [0xBC :: u8, 0x0A, 0xEF, 0x0D]"
    by simp_all
  have len: "length (gesture_coordinates_x (init_state sample_config))
      = GESTURE_MAX_COORDS_PAIRS_REPORT sample_config"
    "length (gesture_coordinates_y (init_state sample_config))
      = GESTURE_MAX_COORDS_PAIRS_REPORT sample_config"
    by (simp_all add: init_state_def)
  have i: "(0::nat) < 1" by simp
  show ?thesis
    using readGestureCoords_decodes [OF hdr ok c buf len i]
    by simp
qed

section \<open>The refresh flag\<close>

lemma last_payload_append:
  "last_payload cfg fw (es @ es') = last_payload cfg (last_payload cfg fw es) es'"
  by (induction cfg fw es rule: last_payload.induct) simp_all

lemma firmware_mask_frame [simp]:
  "firmware_mask cfg (st\<lparr>gesture_mask := gm\<rparr>) = firmware_mask cfg st"
  "firmware_mask cfg (st\<lparr>refreshGestureMask := f\<rparr>) = firmware_mask cfg st"
  by (simp_all add: firmware_mask_def)

lemma firmware_mask_log [simp]:
  "firmware_mask cfg (log_event Mutex_lock st) = firmware_mask cfg st"
  "firmware_mask cfg (log_event Mutex_unlock st) = firmware_mask cfg st"
  "firmware_mask cfg (log_event (Ext Call_fts_disableInterruptNoSync r) st) = firmware_mask cfg st"
  "firmware_mask cfg (log_event (Ext Call_fts_enableInterrupt r) st) = firmware_mask cfg st"
  "firmware_mask cfg (log_event (Ext (Call_setScanMode m p) r) st) = firmware_mask cfg st"
  "firmware_mask cfg (log_event (Ext (Call_setFeatures sel buf n) r) st)
     = (if r <s OK cfg then firmware_mask cfg st else take n (payload_bytes buf))"
  by (simp_all add: firmware_mask_def log_event_def last_payload_append)

lemma length_mask_log [simp]: "length (gesture_mask (log_event ev st)) = length (gesture_mask st)"
  by (simp add: log_event_def)

text \<open>Each operation keeps the driver in step with the bookkeeping.\<close>

lemma in_step_updateGestureMask:
  "in_step cfg st h \<Longrightarrow>
   in_step cfg (exec cfg e (Op_updateGestureMask msk sz en) st)
     (history_step cfg e (Op_updateGestureMask msk sz en) h)"
  by (cases h) (auto simp: updateGestureMask_def in_step_def Let_def split: option.splits)

lemma in_step_enableGesture:
  "in_step cfg st h \<Longrightarrow>
   in_step cfg (exec cfg e (Op_enableGesture msk sz) st)
     (history_step cfg e (Op_enableGesture msk sz) h)"
  by (cases h) (auto simp: enableGesture_def in_step_def Let_def split: option.splits)

lemma in_step_disableGesture:
  "in_step cfg st h \<Longrightarrow>
   in_step cfg (exec cfg e (Op_disableGesture msk sz) st)
     (history_step cfg e (Op_disableGesture msk sz) h)"
  by (cases h) (auto simp: disableGesture_def in_step_def Let_def split: option.splits)

lemma in_step_enterGestureMode:
  "in_step cfg st h \<Longrightarrow>
   in_step cfg (exec cfg e (Op_enterGestureMode reload) st)
     (history_step cfg e (Op_enterGestureMode reload) h)"
  by (cases h)
    (auto simp: enterGestureMode_def enableGesture_def enterGestureMode_scan_def
      enterGestureMode_END_def in_step_def Let_def split: if_splits)

lemma in_step_exec:
  "in_step cfg st h \<Longrightarrow> in_step cfg (exec cfg e oper st) (history_step cfg e oper h)"
  by (cases oper)
    (simp_all only: in_step_updateGestureMask in_step_enableGesture in_step_disableGesture
      in_step_enterGestureMode)

lemma in_step_run_from:
  "in_step cfg st h \<Longrightarrow> in_step cfg (run_from cfg steps st) (history_from cfg steps h)"
proof (induction steps arbitrary: st h)
  case Nil
  then show ?case by simp
next
  case (Cons step steps)
  obtain e oper where step: "step = (e, oper)" by (cases step)
  from Cons.prems have "in_step cfg (exec cfg e oper st) (history_step cfg e oper h)"
    by (rule in_step_exec)
  then show ?case
    unfolding step by (simp add: Cons.IH)
qed

lemma in_step_init: "in_step cfg (init_state cfg) (False, False)"
  by (simp add: in_step_def init_state_def firmware_mask_def)

text \<open>Evaluating runs under \<open>sample_config\<close>.\<close>

lemmas sample_run_simps =
  run_def updateGestureMask_def enableGesture_def disableGesture_def enterGestureMode_def
  enterGestureMode_scan_def enterGestureMode_END_def sample_config_def init_state_def
  env_ok_def log_event_def or_loop.simps clear_loop.simps firmware_mask_def replicate_4
  word_sless_alt Let_def

text \<open>
  C3, as the specification states it, fails in both directions, in states reachable from
  the all-zero mask with the flag clear. (1) After \<^verbatim>\<open>updateGestureMask\<close> has enabled
  bit 0 and a successful \<^verbatim>\<open>enableGesture(NULL, 0)\<close> has sent the mask, the flag is
  still set although the firmware holds the stored mask: only \<^verbatim>\<open>enterGestureMode\<close>
  clears the flag. (2) After an \<^verbatim>\<open>enableGesture\<close> with the delta \<open>[1]\<close> whose firmware
  write fails, the stored mask has a bit the firmware has not seen while the flag is
  clear. (3) After \<^verbatim>\<open>updateGestureMask\<close>, a successful \<^verbatim>\<open>enterGestureMode(0)\<close> and a
  successful \<^verbatim>\<open>disableGesture(NULL, 0)\<close>, the firmware holds the all-zero payload, the
  stored mask is \<open>01 00 00 00\<close> and the flag is clear.
\<close>

theorem refresh_iff_unseen_counterexample:
  "\<not> refresh_iff_unseen sample_config
       (run sample_config
          [(env_ok, Op_updateGestureMask (Some [1]) 1 1),
           (env_ok, Op_enableGesture None 0)])
   \<and> \<not> refresh_iff_unseen sample_config
       (run sample_config
          [(env_ok\<lparr>setFeatures_ret := 0x80000002\<rparr>, Op_enableGesture (Some [1]) 1)])
   \<and> \<not> refresh_iff_unseen sample_config
       (run sample_config
          [(env_ok, Op_updateGestureMask (Some [1]) 1 1),
           (env_ok, Op_enterGestureMode 0),
           (env_ok, Op_disableGesture None 0)])"
proof -
  have n1: "\<not> refresh_iff_unseen sample_config
       (run sample_config
          [(env_ok, Op_updateGestureMask (Some [1]) 1 1),
           (env_ok, Op_enableGesture None 0)])"
    by (simp add: refresh_iff_unseen_def sample_run_simps)
  have n2: "\<not> refresh_iff_unseen sample_config
       (run sample_config
          [(env_ok\<lparr>setFeatures_ret := 0x80000002\<rparr>, Op_enableGesture (Some [1]) 1)])"
    by (simp add: refresh_iff_unseen_def sample_run_simps)
  have n3: "\<not> refresh_iff_unseen sample_config
       (run sample_config
          [(env_ok, Op_updateGestureMask (Some [1]) 1 1),
           (env_ok, Op_enterGestureMode 0),
           (env_ok, Op_disableGesture None 0)])"
    by (simp add: refresh_iff_unseen_def sample_run_simps)
  from n1 n2 n3 show ?thesis by blast
qed

text \<open>
  C3, amended: in every state reachable from the all-zero mask with the flag clear by
  \<^verbatim>\<open>updateGestureMask\<close>, \<^verbatim>\<open>enableGesture\<close>, \<^verbatim>\<open>disableGesture\<close> and
  \<^verbatim>\<open>enterGestureMode\<close> calls, whatever the collaborators return, (a) the refresh flag is
  1 if an update is pending and 0 otherwise, an update being pending when
  \<^verbatim>\<open>updateGestureMask\<close> has been called with arguments it accepts since the last
  \<^verbatim>\<open>enterGestureMode\<close> call that pushed the mask with success; and (b) when the flag is
  0 the stored mask is the payload the firmware accepted last, unless a push has left a
  gap: since the last successful write of the stored mask, the firmware write of an
  \<^verbatim>\<open>enableGesture\<close> or \<^verbatim>\<open>disableGesture\<close> call given a mask has failed, or the
  all-off write of \<^verbatim>\<open>disableGesture\<close> without a mask has succeeded.
\<close>

theorem refresh_flag_invariant:
  "(refreshGestureMask (run cfg steps) = 1) = update_pending cfg steps
   \<and> (refreshGestureMask (run cfg steps) = 0) = (\<not> update_pending cfg steps)
   \<and> (refreshGestureMask (run cfg steps) = 0 \<and> \<not> push_gap cfg steps \<longrightarrow>
        gesture_mask (run cfg steps) = firmware_mask cfg (run cfg steps))"
proof -
  have "in_step cfg (run cfg steps) (history_from cfg steps (False, False))"
    unfolding run_def by (rule in_step_run_from [OF in_step_init])
  then show ?thesis
    by (auto simp: in_step_def update_pending_def push_gap_def split: if_splits)
qed

theorem refresh_flag_invariant_witness:
  "update_pending sample_config [(env_ok, Op_updateGestureMask (Some [1]) 1 1)]
   \<and> refreshGestureMask
       (run sample_config [(env_ok, Op_updateGestureMask (Some [1]) 1 1)]) = 1
   \<and> \<not> update_pending sample_config
         [(env_ok, Op_updateGestureMask (Some [1]) 1 1), (env_ok, Op_enterGestureMode 0)]
   \<and> \<not> push_gap sample_config
         [(env_ok, Op_updateGestureMask (Some [1]) 1 1), (env_ok, Op_enterGestureMode 0)]
   \<and> refreshGestureMask
       (run sample_config
          [(env_ok, Op_updateGestureMask (Some [1]) 1 1), (env_ok, Op_enterGestureMode 0)]) = 0
   \<and> firmware_mask sample_config
       (run sample_config
          [(env_ok, Op_updateGestureMask (Some [1]) 1 1), (env_ok, Op_enterGestureMode 0)])
     = [1, 0, 0, 0]"
proof -
  let ?u = "[(env_ok, Op_updateGestureMask (Some [1]) 1 1)]"
  let ?w = "[(env_ok, Op_updateGestureMask (Some [1]) 1 1), (env_ok, Op_enterGestureMode 0)]"
  have p: "update_pending sample_config ?u"
    by (simp add: update_pending_def sample_config_def)
  have np: "\<not> update_pending sample_config ?w"
    by (simp add: update_pending_def sample_config_def env_ok_def)
  have ng: "\<not> push_gap sample_config ?w"
    by (simp add: push_gap_def sample_config_def env_ok_def)
  have m: "gesture_mask (run sample_config ?w) = [1, 0, 0, 0]"
    by (simp add: sample_run_simps)
  show ?thesis
    using p np ng m refresh_flag_invariant [of sample_config ?u]
      refresh_flag_invariant [of sample_config ?w]
    by simp
qed

end
